theory Spec2Isabelle
  imports Main "HOL-Library.Sublist"
begin

section \<open>Errors\<close>

text \<open>
  Go functions of the program return an \<open>error\<close> value next to their result, or panic.
  Both are values of the model: \<open>Error msg\<close> is a returned error, \<open>Panic msg\<close> a panic
  that unwinds the caller.
\<close>

datatype error = Error string | Panic string

section \<open>Regular expressions: \<open>regexp.MatchString\<close>\<close>

text \<open>
  The program calls Go's \<open>regexp.MatchString(pattern, s)\<close>, which compiles the pattern
  and searches \<open>s\<close> for a match starting anywhere (an unanchored search). The model covers
  the part of the RE2 syntax the program and its tests use: literal bytes, \<open>.\<close> (any byte
  but newline), the anchors \<open>^\<close> and \<open>$\<close> (begin and end of the text), bracket classes
  with ranges and negation, an escaped punctuation byte, and the postfix operators
  \<open>*\<close>, \<open>+\<close> and \<open>?\<close> on one atom. Groups, alternation, counted repetition, lazy
  operators, escapes of letters and digits and bytes beyond ASCII in the pattern are
  outside the model: for them the compiler answers \<open>RxUnsupported\<close>, which is not an
  answer of Go's. Patterns answered with \<open>RxInvalid\<close> are rejected by Go as well.
  Matching is by bytes.
\<close>

datatype rx_atom =
    AChar char
  | AAny
  | AClass bool "(char \<times> char) list"
  | ABegin
  | AEnd

datatype rx_quant = QOne | QStar | QPlus | QOpt

type_synonym rx_item = "rx_atom \<times> rx_quant"

datatype rx_error = RxInvalid | RxUnsupported

definition byteLe :: "char \<Rightarrow> char \<Rightarrow> bool" where
  "byteLe a b = ((of_char a :: nat) \<le> of_char b)"

definition inRange :: "char \<Rightarrow> char \<times> char \<Rightarrow> bool" where
  "inRange x r = (byteLe (fst r) x \<and> byteLe x (snd r))"

definition isAscii :: "char \<Rightarrow> bool" where
  "isAscii c = ((of_char c :: nat) < 128)"

definition isAlnum :: "char \<Rightarrow> bool" where
  "isAlnum c = (inRange c (CHR ''a'', CHR ''z'') \<or> inRange c (CHR ''A'', CHR ''Z'')
                \<or> inRange c (CHR ''0'', CHR ''9''))"

fun atomMatches :: "rx_atom \<Rightarrow> char \<Rightarrow> bool" where
  "atomMatches (AChar c) x = (x = c)"
| "atomMatches AAny x = (x \<noteq> CHR 0x0A)"
| "atomMatches (AClass neg rs) x = (neg \<noteq> list_ex (inRange x) rs)"
| "atomMatches ABegin x = False"
| "atomMatches AEnd x = False"

text \<open>
  The items of a bracket class, up to the closing bracket: a byte, or a range \<open>lo-hi\<close>
  (a \<open>-\<close> before the closing bracket is a byte of the class). Returns the ranges and
  the rest of the pattern.
\<close>

fun parseClassItems :: "string \<Rightarrow> (char \<times> char) list \<Rightarrow> rx_error + ((char \<times> char) list \<times> string)" where
  "parseClassItems [] acc = Inl RxInvalid"
| "parseClassItems (c # t) acc =
     (if c = CHR '']'' then Inr (rev acc, t)
      else if c = CHR 0x5C \<or> c = CHR ''['' \<or> \<not> isAscii c then Inl RxUnsupported
      else (case t of
              d # e # t' \<Rightarrow>
                (if d = CHR ''-'' \<and> e \<noteq> CHR '']'' then
                   (if e = CHR 0x5C \<or> e = CHR ''['' \<or> \<not> isAscii e then Inl RxUnsupported
                    else if \<not> byteLe c e then Inl RxInvalid
                    else parseClassItems t' ((c, e) # acc))
                 else parseClassItems t ((c, c) # acc))
            | _ \<Rightarrow> parseClassItems t ((c, c) # acc)))"

text \<open>A class after its opening bracket: an optional \<open>^\<close> negates it.\<close>

definition parseClass :: "string \<Rightarrow> rx_error + (rx_atom \<times> string)" where
  "parseClass t =
     (let neg = (case t of c # _ \<Rightarrow> c = CHR ''^'' | [] \<Rightarrow> False);
          body = (if neg then tl t else t)
      in case body of
           [] \<Rightarrow> Inl RxInvalid
         | c # _ \<Rightarrow>
             if c = CHR '']'' then Inl RxUnsupported
             else (case parseClassItems body [] of
                     Inl e \<Rightarrow> Inl e
                   | Inr (rs, rest) \<Rightarrow> Inr (AClass neg rs, rest)))"

definition quantOf :: "char \<Rightarrow> rx_quant" where
  "quantOf c = (if c = CHR ''*'' then QStar else if c = CHR ''+'' then QPlus else QOpt)"

lemma parseClassItems_length:
  "parseClassItems t acc = Inr (rs, rest) \<Longrightarrow> length rest < length t"
proof (induction t arbitrary: acc rule: length_induct)
  case (1 t)
  show ?case
  proof (cases t)
    case Nil
    with 1(2) show ?thesis by simp
  next
    case (Cons c u)
    have step: "length rest < length t"
      if "parseClassItems v acc' = Inr (rs, rest)" "length v \<le> length u" for v acc'
    proof -
      from that(2) Cons have "length v < length t" by simp
      with 1(1) that(1) have "length rest < length v" by blast
      with \<open>length v < length t\<close> show ?thesis by simp
    qed
    from 1(2) Cons have p: "parseClassItems (c # u) acc = Inr (rs, rest)" by simp
    show ?thesis
    proof (cases "c = CHR '']''")
      case True
      with p Cons show ?thesis by simp
    next
      case False
      from p have "\<exists>v acc'. parseClassItems v acc' = Inr (rs, rest) \<and> length v \<le> length u"
        apply (subst (asm) parseClassItems.simps)
        apply (simp only: False if_False split: if_splits list.splits)
        apply (auto simp del: parseClassItems.simps)
        done
      then obtain v acc' where "parseClassItems v acc' = Inr (rs, rest)" "length v \<le> length u"
        by blast
      then show ?thesis by (rule step)
    qed
  qed
qed

lemma parseClass_length:
  "parseClass t = Inr (a, rest) \<Longrightarrow> length rest < Suc (length t)"
  unfolding parseClass_def Let_def
  by (auto simp del: parseClassItems.simps split: list.splits if_splits sum.splits
        dest!: parseClassItems_length)

text \<open>
  The pattern, read left to right; \<open>acc\<close> holds the items read so far, last first.
  A postfix operator applies to the item before it.
\<close>

function parseItems :: "string \<Rightarrow> rx_item list \<Rightarrow> rx_error + rx_item list" where
  "parseItems [] acc = Inr (rev acc)"
| "parseItems (c # t) acc =
     (if c = CHR ''*'' \<or> c = CHR ''+'' \<or> c = CHR ''?'' then
        (case acc of
           [] \<Rightarrow> Inl RxInvalid
         | (a, q) # r \<Rightarrow>
             if q \<noteq> QOne \<or> a = ABegin \<or> a = AEnd then Inl RxUnsupported
             else parseItems t ((a, quantOf c) # r))
      else if c = CHR ''.'' then parseItems t ((AAny, QOne) # acc)
      else if c = CHR ''^'' then parseItems t ((ABegin, QOne) # acc)
      else if c = CHR ''$'' then parseItems t ((AEnd, QOne) # acc)
      else if c = CHR ''['' then
        (case parseClass t of
           Inl e \<Rightarrow> Inl e
         | Inr (a, rest) \<Rightarrow> parseItems rest ((a, QOne) # acc))
      else if c = CHR 0x5C then
        (case t of
           [] \<Rightarrow> Inl RxInvalid
         | d # t' \<Rightarrow>
             if isAscii d \<and> \<not> isAlnum d then parseItems t' ((AChar d, QOne) # acc)
             else Inl RxUnsupported)
      else if c = CHR ''('' \<or> c = CHR '')'' \<or> c = CHR ''|'' \<or> c = CHR ''{'' \<or> \<not> isAscii c
        then Inl RxUnsupported
      else parseItems t ((AChar c, QOne) # acc))"
  by pat_completeness auto
termination
  by (relation "measure (\<lambda>(s, acc). length s)") (auto dest: parseClass_length)

definition regexp_Compile :: "string \<Rightarrow> rx_error + rx_item list" where
  "regexp_Compile pattern = parseItems pattern []"

text \<open>
  Does a match of the items start at the head of \<open>s\<close>? \<open>atStart\<close> says whether the head
  of \<open>s\<close> is the beginning of the whole text.
\<close>

function matchHere :: "rx_item list \<Rightarrow> string \<Rightarrow> bool \<Rightarrow> bool" where
  "matchHere [] s atStart = True"
| "matchHere ((a, q) # r) [] atStart =
     (if a = ABegin then atStart \<and> matchHere r [] atStart
      else if a = AEnd then matchHere r [] atStart
      else (case q of
              QOne \<Rightarrow> False
            | QOpt \<Rightarrow> matchHere r [] atStart
            | QStar \<Rightarrow> matchHere r [] atStart
            | QPlus \<Rightarrow> False))"
| "matchHere ((a, q) # r) (x # xs) atStart =
     (if a = ABegin then atStart \<and> matchHere r (x # xs) atStart
      else if a = AEnd then False
      else (case q of
              QOne \<Rightarrow> atomMatches a x \<and> matchHere r xs False
            | QOpt \<Rightarrow> matchHere r (x # xs) atStart \<or> (atomMatches a x \<and> matchHere r xs False)
            | QStar \<Rightarrow> matchHere r (x # xs) atStart
                       \<or> (atomMatches a x \<and> matchHere ((a, QStar) # r) xs False)
            | QPlus \<Rightarrow> atomMatches a x \<and> matchHere ((a, QStar) # r) xs False))"
  by pat_completeness auto
termination
  by (relation "measures [(\<lambda>(r, s, b). length s), (\<lambda>(r, s, b). length r)]") auto

text \<open>The unanchored search: a match may start at any position of the text.\<close>

fun matchFrom :: "rx_item list \<Rightarrow> string \<Rightarrow> bool \<Rightarrow> bool" where
  "matchFrom r [] atStart = matchHere r [] atStart"
| "matchFrom r (x # xs) atStart = (matchHere r (x # xs) atStart \<or> matchFrom r xs False)"

definition regexp_MatchString :: "string \<Rightarrow> string \<Rightarrow> rx_error + bool" where
  "regexp_MatchString pattern s =
     (case regexp_Compile pattern of
        Inl e \<Rightarrow> Inl e
      | Inr r \<Rightarrow> Inr (matchFrom r s True))"

section \<open>The command line program\<close>

text \<open>
  \<open>testValidUri\<close>: whether the string has a scheme prefix. An error of the regular
  expression library counts as no match.
\<close>

definition testValidUri :: "string \<Rightarrow> bool" where
  "testValidUri uri =
     (case regexp_MatchString ''^[a-zA-Z0-9]+://'' uri of
        Inl err \<Rightarrow> False
      | Inr matched \<Rightarrow> matched)"

text \<open>
  \<open>convertLocalPathToUri\<close>. \<open>filepath.Abs\<close> belongs to Go's standard library and depends
  on the working directory of the process; the model takes it as the parameter \<open>Abs\<close>,
  returning Go's pair of the path and an optional error. The function formats the
  path whether or not \<open>Abs\<close> failed and returns the error beside it.
\<close>

definition convertLocalPathToUri :: "(string \<Rightarrow> string \<times> error option) \<Rightarrow> string \<Rightarrow> string \<times> error option" where
  "convertLocalPathToUri Abs path =
     (let (abspath, err) = Abs path;
          uri = ''file://'' @ abspath
      in (uri, err))"

text \<open>
  The manager of the program: the catalog URI, the box name and the backend
  (\<open>caryatid.NewBackendManager(uri, boxName, &backend)\<close>).
\<close>

record 'b BackendManager =
  CatalogUri :: string
  BoxName :: string
  Backend :: 'b

text \<open>
  \<open>getManager\<close>. \<open>caryatid.NewBackendFromUri\<close> selects the backend by the scheme of the
  URI; it is the parameter \<open>NewBackend\<close>. The result is the manager or the error
  (Go returns a nil manager with the error).
\<close>

definition getManager ::
    "(string \<Rightarrow> string \<times> error option) \<Rightarrow> (string \<Rightarrow> error + 'b) \<Rightarrow> string \<Rightarrow> string
      \<Rightarrow> error + 'b BackendManager" where
  "getManager Abs NewBackend catalogRootUri boxName =
     (let (uri, err) = (if testValidUri catalogRootUri then (catalogRootUri, None)
                        else convertLocalPathToUri Abs catalogRootUri)
      in case err of
           Some e \<Rightarrow> Inl e
         | None \<Rightarrow>
             (case NewBackend uri of
                Inl e \<Rightarrow> Inl e
              | Inr backend \<Rightarrow>
                  Inr \<lparr>CatalogUri = uri, BoxName = boxName, Backend = backend\<rparr>))"

text \<open>The class \<open>[a-zA-Z0-9]\<close> of the scheme pattern, as the compiler reads it.\<close>

definition schemeClass :: rx_atom where
  "schemeClass = AClass False [(CHR ''a'', CHR ''z''), (CHR ''A'', CHR ''Z''), (CHR ''0'', CHR ''9'')]"

section \<open>The catalog data model\<close>

text \<open>
  The structs of package \<open>caryatid\<close>, with the fields and the field order of the struct
  literals in the program and its tests: \<open>Provider{Name, Url, ChecksumType, Checksum}\<close>,
  \<open>Version{Version, Providers}\<close>, \<open>Catalog{Name, Description, Versions}\<close> and the
  eight fields of the \<open>BoxArtifact\<close> literal in \<open>addAction\<close>. A field \<open>F\<close> of struct
  \<open>T\<close> is \<open>T_F\<close>. Go slices are lists; equality of records is the structural
  equality of the structs.
\<close>

record Provider =
  Provider_Name :: string
  Provider_Url :: string
  Provider_ChecksumType :: string
  Provider_Checksum :: string

record Version =
  Version_Version :: string
  Version_Providers :: "Provider list"

record Catalog =
  Catalog_Name :: string
  Catalog_Description :: string
  Catalog_Versions :: "Version list"

record BoxArtifact =
  BoxArtifact_Path :: string
  BoxArtifact_Name :: string
  BoxArtifact_Description :: string
  BoxArtifact_Version :: string
  BoxArtifact_Provider :: string
  BoxArtifact_CatalogUri :: string
  BoxArtifact_ChecksumType :: string
  BoxArtifact_Checksum :: string

section \<open>The version comparator\<close>

datatype ordering = LT | EQ | GT

definition isDigit :: "char \<Rightarrow> bool" where
  "isDigit c = inRange c (CHR ''0'', CHR ''9'')"

definition digitVal :: "char \<Rightarrow> nat" where
  "digitVal c = of_char c - 48"

fun parseDigits :: "string \<Rightarrow> nat \<Rightarrow> nat option" where
  "parseDigits [] acc = Some acc"
| "parseDigits (c # cs) acc =
     (if isDigit c then parseDigits cs (10 * acc + digitVal c) else None)"

text \<open>
  Modelled from the spec: the parser of one component of a numeric core, part of the
  version comparator of package \<open>caryatid\<close>, which is not among the sources. A
  component is "a non-negative integer": one or more decimal digits.
\<close>

definition parseComponent :: "string \<Rightarrow> nat option" where
  "parseComponent s = (if s = [] then None else parseDigits s 0)"

fun splitOn :: "char \<Rightarrow> string \<Rightarrow> string list" where
  "splitOn sep [] = [[]]"
| "splitOn sep (x # xs) =
     (if x = sep then [] # splitOn sep xs
      else (case splitOn sep xs of
              h # t \<Rightarrow> (x # h) # t
            | [] \<Rightarrow> [[x]]))"

fun allSome :: "'a option list \<Rightarrow> 'a list option" where
  "allSome [] = Some []"
| "allSome (None # xs) = None"
| "allSome (Some x # xs) = (case allSome xs of None \<Rightarrow> None | Some ys \<Rightarrow> Some (x # ys))"

text \<open>
  Modelled from the spec: the version parser of package \<open>caryatid\<close>, which is not among
  the sources. "Split a version string into a numeric core (major.minor.patch, each a
  non-negative integer) and an optional pre-release suffix (text following a \<open>-\<close>)";
  "a malformed version string (non-numeric core component) is a reportable parse
  error". The core is the text before the first \<open>-\<close>, split at the dots. The spec's
  own query \<open><1\<close> has a core of one component, so the number of components is not
  fixed at three: a core is the list of the components written.
\<close>

definition parseVersion :: "string \<Rightarrow> error + (nat list \<times> string option)" where
  "parseVersion s =
     (let coreText = takeWhile (\<lambda>c. c \<noteq> CHR ''-'') s;
          rest = dropWhile (\<lambda>c. c \<noteq> CHR ''-'') s;
          suffix = (case rest of [] \<Rightarrow> None | dash # t \<Rightarrow> Some t)
      in case allSome (map parseComponent (splitOn (CHR ''.'') coreText)) of
           None \<Rightarrow> Inl (Error (''malformed version: '' @ s))
         | Some core \<Rightarrow> Inr (core, suffix))"

text \<open>
  Modelled from the spec: "Compare numeric cores component-wise, most-significant
  first." The components are compared as numbers from the left; the first difference
  decides. The spec does not say how a core that ends first compares (the query \<open><1\<close>
  against the version \<open>1.0.0\<close>): here it orders before the longer one, which is the
  order under which the expected results of the query tests hold (\<open><1\<close> selects
  neither \<open>1.0.0\<close> nor \<open>1.0.0-PRE\<close>).
\<close>

fun compareCore :: "nat list \<Rightarrow> nat list \<Rightarrow> ordering" where
  "compareCore [] [] = EQ"
| "compareCore [] (y # ys) = LT"
| "compareCore (x # xs) [] = GT"
| "compareCore (x # xs) (y # ys) =
     (if x < y then LT else if y < x then GT else compareCore xs ys)"

text \<open>The lexical order of two byte strings.\<close>

fun compareString :: "string \<Rightarrow> string \<Rightarrow> ordering" where
  "compareString [] [] = EQ"
| "compareString [] (y # ys) = LT"
| "compareString (x # xs) [] = GT"
| "compareString (x # xs) (y # ys) =
     (if (of_char x :: nat) < of_char y then LT
      else if (of_char y :: nat) < of_char x then GT
      else compareString xs ys)"

text \<open>
  Modelled from the spec: "If numeric cores are equal, a version with a pre-release
  suffix orders strictly before the same numeric core without a suffix; two
  pre-release suffixes compare lexically."
\<close>

fun compareVersions :: "nat list \<times> string option \<Rightarrow> nat list \<times> string option \<Rightarrow> ordering" where
  "compareVersions (c1, p1) (c2, p2) =
     (case compareCore c1 c2 of
        LT \<Rightarrow> LT
      | GT \<Rightarrow> GT
      | EQ \<Rightarrow>
          (case (p1, p2) of
             (None, None) \<Rightarrow> EQ
           | (Some a, None) \<Rightarrow> LT
           | (None, Some b) \<Rightarrow> GT
           | (Some a, Some b) \<Rightarrow> compareString a b))"

text \<open>
  The order on version strings: \<open>versionCompare a b\<close> parses both and compares them; a
  malformed string is an error.
\<close>

definition versionCompare :: "string \<Rightarrow> string \<Rightarrow> error + ordering" where
  "versionCompare a b =
     (case parseVersion a of
        Inl e \<Rightarrow> Inl e
      | Inr va \<Rightarrow>
          (case parseVersion b of
             Inl e \<Rightarrow> Inl e
           | Inr vb \<Rightarrow> Inr (compareVersions va vb)))"

datatype comparator = CmpLt | CmpLe | CmpGt | CmpGe | CmpEq

text \<open>
  Modelled from the spec: the parser of a comparator query ("operators \<open><\<close>, \<open><=\<close>,
  \<open>>\<close>, \<open>>=\<close>, \<open>=\<close>, or no operator meaning exact match"; "an empty query string
  matches everything"; "a malformed comparator query is also a reportable error").
  \<open>None\<close> is the query that matches everything.
\<close>

definition parseVersionQuery :: "string \<Rightarrow> error + (comparator \<times> (nat list \<times> string option)) option" where
  "parseVersionQuery q =
     (if q = [] then Inr None
      else
        (let (cmp, text) =
               (case q of
                  a # b # t \<Rightarrow>
                    if a = CHR ''<'' \<and> b = CHR ''='' then (CmpLe, t)
                    else if a = CHR ''>'' \<and> b = CHR ''='' then (CmpGe, t)
                    else if a = CHR ''<'' then (CmpLt, b # t)
                    else if a = CHR ''>'' then (CmpGt, b # t)
                    else if a = CHR ''='' then (CmpEq, b # t)
                    else (CmpEq, q)
                | [a] \<Rightarrow>
                    if a = CHR ''<'' then (CmpLt, [])
                    else if a = CHR ''>'' then (CmpGt, [])
                    else if a = CHR ''='' then (CmpEq, [])
                    else (CmpEq, q)
                | [] \<Rightarrow> (CmpEq, q))
         in case parseVersion text of
              Inl e \<Rightarrow> Inl e
            | Inr v \<Rightarrow> Inr (Some (cmp, v))))"

fun satisfies :: "comparator \<Rightarrow> ordering \<Rightarrow> bool" where
  "satisfies CmpLt ord = (ord = LT)"
| "satisfies CmpLe ord = (ord = LT \<or> ord = EQ)"
| "satisfies CmpGt ord = (ord = GT)"
| "satisfies CmpGe ord = (ord = GT \<or> ord = EQ)"
| "satisfies CmpEq ord = (ord = EQ)"

text \<open>
  Modelled from the spec: "given a comparator query string and a candidate version
  string, return whether the candidate satisfies the query". The query is parsed
  already; the candidate is parsed unless the query matches everything.
\<close>

definition versionSatisfies ::
    "(comparator \<times> (nat list \<times> string option)) option \<Rightarrow> string \<Rightarrow> error + bool" where
  "versionSatisfies query candidate =
     (case query of
        None \<Rightarrow> Inr True
      | Some (cmp, qv) \<Rightarrow>
          (case parseVersion candidate of
             Inl e \<Rightarrow> Inl e
           | Inr cv \<Rightarrow> Inr (satisfies cmp (compareVersions cv qv))))"

section \<open>The query engine\<close>

text \<open>
  Modelled from the spec: the provider filter of the query engine of package
  \<open>caryatid\<close>, which is not among the sources. "Within each surviving Version, only
  Providers whose name matches the provider pattern"; "an invalid pattern is a
  reportable error". The matcher is the parameter \<open>match\<close> (pattern first, provider
  name second), so that the engine is defined for any regular-expression library.
  The providers are visited in their order; an error of the matcher ends the query.
\<close>

fun filterProviders ::
    "(string \<Rightarrow> string \<Rightarrow> error + bool) \<Rightarrow> string \<Rightarrow> Provider list \<Rightarrow> error + Provider list" where
  "filterProviders match pattern [] = Inr []"
| "filterProviders match pattern (p # ps) =
     (case match pattern (Provider_Name p) of
        Inl e \<Rightarrow> Inl e
      | Inr matched \<Rightarrow>
          (case filterProviders match pattern ps of
             Inl e \<Rightarrow> Inl e
           | Inr rest \<Rightarrow> Inr (if matched then p # rest else rest)))"

text \<open>
  Modelled from the spec: the version filter of the query engine. "Only Versions that
  satisfy the version query and, within each surviving Version, only Providers whose
  name matches the provider pattern. A Version with zero surviving Providers is
  dropped entirely." The versions are visited in their order.
\<close>

fun filterVersions ::
    "(string \<Rightarrow> string \<Rightarrow> error + bool) \<Rightarrow> (comparator \<times> (nat list \<times> string option)) option
      \<Rightarrow> string \<Rightarrow> Version list \<Rightarrow> error + Version list" where
  "filterVersions match query pattern [] = Inr []"
| "filterVersions match query pattern (v # vs) =
     (case versionSatisfies query (Version_Version v) of
        Inl e \<Rightarrow> Inl e
      | Inr ok \<Rightarrow>
          (case (if ok then filterProviders match pattern (Version_Providers v) else Inr []) of
             Inl e \<Rightarrow> Inl e
           | Inr ps \<Rightarrow>
               (case filterVersions match query pattern vs of
                  Inl e \<Rightarrow> Inl e
                | Inr rest \<Rightarrow>
                    Inr (if ps = [] then rest else v\<lparr>Version_Providers := ps\<rparr> # rest))))"

text \<open>
  Modelled from the spec: \<open>QueryCatalog\<close> of package \<open>caryatid\<close> (the program calls
  \<open>catalog.QueryCatalog(queryParams)\<close> with the version query and the provider query).
  "Given a Catalog, a version-range query string, and a provider-pattern string,
  return a new Catalog of the same name/description containing only" the matching
  versions and providers.
\<close>

definition queryCatalogWith ::
    "(string \<Rightarrow> string \<Rightarrow> error + bool) \<Rightarrow> Catalog \<Rightarrow> string \<Rightarrow> string \<Rightarrow> error + Catalog" where
  "queryCatalogWith match catalog versionQuery providerQuery =
     (case parseVersionQuery versionQuery of
        Inl e \<Rightarrow> Inl e
      | Inr query \<Rightarrow>
          (case filterVersions match query providerQuery (Catalog_Versions catalog) of
             Inl e \<Rightarrow> Inl e
           | Inr vs \<Rightarrow> Inr (catalog\<lparr>Catalog_Versions := vs\<rparr>)))"

text \<open>
  Modelled from the spec: the provider pattern is "an unanchored
  substring/regular-expression search against the provider name (not a full-string
  match)"; "an invalid pattern is a reportable error". The search is
  \<open>regexp.MatchString\<close>, as in the program's own \<open>testValidUri\<close>.
\<close>

definition providerMatches :: "string \<Rightarrow> string \<Rightarrow> error + bool" where
  "providerMatches pattern name =
     (case regexp_MatchString pattern name of
        Inl RxInvalid \<Rightarrow> Inl (Error (''invalid provider pattern: '' @ pattern))
      | Inl RxUnsupported \<Rightarrow> Inl (Error (''provider pattern outside the model: '' @ pattern))
      | Inr matched \<Rightarrow> Inr matched)"

definition QueryCatalog :: "Catalog \<Rightarrow> string \<Rightarrow> string \<Rightarrow> error + Catalog" where
  "QueryCatalog = queryCatalogWith providerMatches"

section \<open>Adding to a catalog\<close>

text \<open>
  Modelled from the spec: registering a provider under a version, part of package
  \<open>caryatid\<close>, which is not among the sources. "Provider names are unique within a
  Version; registering a provider name that already exists replaces it in place
  rather than appending."
\<close>

fun upsertProvider :: "Provider \<Rightarrow> Provider list \<Rightarrow> Provider list" where
  "upsertProvider p [] = [p]"
| "upsertProvider p (q # qs) =
     (if Provider_Name q = Provider_Name p then p # qs else q # upsertProvider p qs)"

text \<open>
  Modelled from the spec: "inserts/replaces the Provider under the matching Version
  (creating the Version if its version string is new)". A new version goes to the end
  of the list: "\<open>versions\<close> order is registration order".
\<close>

fun upsertVersion :: "string \<Rightarrow> Provider \<Rightarrow> Version list \<Rightarrow> Version list" where
  "upsertVersion ver p [] = [\<lparr>Version_Version = ver, Version_Providers = [p]\<rparr>]"
| "upsertVersion ver p (v # vs) =
     (if Version_Version v = ver
      then v\<lparr>Version_Providers := upsertProvider p (Version_Providers v)\<rparr> # vs
      else v # upsertVersion ver p vs)"

text \<open>
  Modelled from the spec: the catalog's add operation. It "constructs a Provider
  entry" from the artifact (\<open>url\<close> is the location the backend derives for the file)
  and files it under the artifact's version.
\<close>

definition providerOf :: "BoxArtifact \<Rightarrow> string \<Rightarrow> Provider" where
  "providerOf artifact url =
     \<lparr>Provider_Name = BoxArtifact_Provider artifact, Provider_Url = url,
      Provider_ChecksumType = BoxArtifact_ChecksumType artifact,
      Provider_Checksum = BoxArtifact_Checksum artifact\<rparr>"

definition catalogAddBox :: "Catalog \<Rightarrow> BoxArtifact \<Rightarrow> string \<Rightarrow> Catalog" where
  "catalogAddBox catalog artifact url =
     catalog\<lparr>Catalog_Versions :=
       upsertVersion (BoxArtifact_Version artifact) (providerOf artifact url)
         (Catalog_Versions catalog)\<rparr>"

text \<open>
  The invariants of the data model: "version strings are unique within a catalog" and
  "provider names are unique within a Version".
\<close>

definition catalogInvariant :: "Catalog \<Rightarrow> bool" where
  "catalogInvariant catalog =
     (distinct (map Version_Version (Catalog_Versions catalog))
      \<and> list_all (\<lambda>v. distinct (map Provider_Name (Version_Providers v)))
           (Catalog_Versions catalog))"

text \<open>The provider entries a catalog files under a version string.\<close>

definition providersUnder :: "Catalog \<Rightarrow> string \<Rightarrow> Provider list" where
  "providersUnder catalog ver =
     concat (map Version_Providers
       (filter (\<lambda>v. Version_Version v = ver) (Catalog_Versions catalog)))"

section \<open>The storage backend\<close>

text \<open>
  The world the backends act on: the catalog documents by URI (absent or a catalog),
  the artifact files present in backend storage by location, the faults injected
  into the storage (an operation with its fault fails and changes nothing but the
  record of calls), and the backend calls made so far, oldest first.
\<close>

datatype fault = ReadFault | WriteFault | CopyFault | DeleteFault

datatype event =
    EvReadCatalog string
  | EvWriteCatalog string
  | EvCopyBoxFile string
  | EvDeleteBoxFile string

record World =
  documents :: "string \<Rightarrow> Catalog option"
  boxFiles :: "string set"
  faults :: "fault set"
  calls :: "event list"

datatype readResult = Found Catalog | NotFound | ReadError error

text \<open>
  Modelled from the spec: the capability set of a storage backend, an interface of
  package \<open>caryatid\<close> that is not among the sources (the program calls its
  \<open>CopyBoxFile\<close>): \<open>readCatalog\<close>, \<open>writeCatalog\<close>, the copy of an artifact file into
  backend storage, \<open>deleteArtifact\<close>, \<open>exists\<close>, and the location "the backend
  derives deterministically from box name, version, and provider name"
  (\<open>boxUri\<close>).
\<close>

record Backend =
  readCatalog :: "World \<Rightarrow> readResult \<times> World"
  writeCatalog :: "Catalog \<Rightarrow> World \<Rightarrow> error option \<times> World"
  CopyBoxFile :: "BoxArtifact \<Rightarrow> World \<Rightarrow> error option \<times> World"
  deleteArtifact :: "string \<Rightarrow> string \<Rightarrow> string \<Rightarrow> World \<Rightarrow> error option \<times> World"
  exists :: "string \<Rightarrow> World \<Rightarrow> bool"
  boxUri :: "string \<Rightarrow> string \<Rightarrow> string \<Rightarrow> string"

definition logCall :: "event \<Rightarrow> World \<Rightarrow> World" where
  "logCall ev w = w\<lparr>calls := calls w @ [ev]\<rparr>"

text \<open>The directory of a path: the text before its last slash.\<close>

definition dirName :: "string \<Rightarrow> string" where
  "dirName path = rev (drop 1 (dropWhile (\<lambda>c. c \<noteq> CHR ''/'') (rev path)))"

text \<open>
  Modelled from the spec: the location of an artifact file of the local-filesystem
  backend. The delete test of the program looks for the files at
  \<open>root/boxName/boxName_version_provider.box\<close>, where \<open>root\<close> is the directory of the
  catalog document.
\<close>

definition localBoxUri :: "string \<Rightarrow> string \<Rightarrow> string \<Rightarrow> string \<Rightarrow> string" where
  "localBoxUri uri name ver provider =
     dirName uri @ ''/'' @ name @ ''/'' @ name @ ''_'' @ ver @ ''_'' @ provider @ ''.box''"

text \<open>
  Modelled from the spec: the reference backend for local-filesystem URIs.
  \<open>readCatalog\<close> answers the catalog or not-found; \<open>writeCatalog\<close> is a "full-document
  overwrite"; the copy places the file at the derived location, so that "re-adding the
  same version/provider overwrites the same physical location"; \<open>deleteArtifact\<close> is
  "idempotent: deleting a non-existent artifact is not an error".
\<close>

definition localBackend :: "string \<Rightarrow> Backend" where
  "localBackend uri =
     \<lparr>readCatalog = (\<lambda>w.
        (if ReadFault \<in> faults w then ReadError (Error (''cannot read '' @ uri))
         else (case documents w uri of None \<Rightarrow> NotFound | Some c \<Rightarrow> Found c),
         logCall (EvReadCatalog uri) w)),
      writeCatalog = (\<lambda>c w.
        if WriteFault \<in> faults w
        then (Some (Error (''cannot write '' @ uri)), logCall (EvWriteCatalog uri) w)
        else (None, logCall (EvWriteCatalog uri) (w\<lparr>documents := (documents w)(uri \<mapsto> c)\<rparr>))),
      CopyBoxFile = (\<lambda>a w.
        let dest = localBoxUri uri (BoxArtifact_Name a) (BoxArtifact_Version a)
                     (BoxArtifact_Provider a)
        in if CopyFault \<in> faults w
           then (Some (Error (''cannot copy to '' @ dest)), logCall (EvCopyBoxFile dest) w)
           else (None, logCall (EvCopyBoxFile dest) (w\<lparr>boxFiles := insert dest (boxFiles w)\<rparr>))),
      deleteArtifact = (\<lambda>name ver provider w.
        let dest = localBoxUri uri name ver provider
        in if DeleteFault \<in> faults w
           then (Some (Error (''cannot delete '' @ dest)), logCall (EvDeleteBoxFile dest) w)
           else (None, logCall (EvDeleteBoxFile dest) (w\<lparr>boxFiles := boxFiles w - {dest}\<rparr>))),
      exists = (\<lambda>path w. path \<in> boxFiles w),
      boxUri = localBoxUri uri\<rparr>"

text \<open>
  Modelled from the spec: \<open>NewBackendFromUri\<close> of package \<open>caryatid\<close>. A backend is
  "keyed by URI scheme at construction time"; the local-filesystem scheme is the one
  implemented.
\<close>

definition NewBackendFromUri :: "string \<Rightarrow> error + Backend" where
  "NewBackendFromUri uri =
     (if take 7 uri = ''file://'' then Inr (localBackend uri)
      else Inl (Error (''no backend for '' @ uri)))"

section \<open>The backend manager\<close>

text \<open>
  Modelled from the spec: \<open>GetCatalog\<close> of the manager, which is not among the sources.
  It "returns the current Catalog as read from the backend, translating a document not
  found condition into an empty Catalog rather than an error": "a Catalog with the
  configured name, empty description, and no versions".
\<close>

definition GetCatalog :: "Backend BackendManager \<Rightarrow> World \<Rightarrow> (error + Catalog) \<times> World" where
  "GetCatalog manager w =
     (let (r, w1) = readCatalog (Backend manager) w
      in (case r of
            ReadError e \<Rightarrow> Inl e
          | NotFound \<Rightarrow>
              Inr \<lparr>Catalog_Name = BoxName manager, Catalog_Description = [],
                   Catalog_Versions = []\<rparr>
          | Found c \<Rightarrow> Inr c,
          w1))"

text \<open>
  Modelled from the spec: \<open>AddBoxMetadataToCatalog\<close> of the manager, the catalog half of
  the spec's \<open>addBox\<close>: it "constructs a Provider entry, reads the current Catalog (or
  starts an empty one keyed by name/description on first use), inserts/replaces the
  Provider under the matching Version, writes the updated Catalog back to the
  backend".
\<close>

definition AddBoxMetadataToCatalog ::
    "Backend BackendManager \<Rightarrow> BoxArtifact \<Rightarrow> World \<Rightarrow> error option \<times> World" where
  "AddBoxMetadataToCatalog manager artifact w =
     (let backend = Backend manager;
          url = boxUri backend (BoxArtifact_Name artifact) (BoxArtifact_Version artifact)
                  (BoxArtifact_Provider artifact);
          (r, w1) = readCatalog backend w
      in case r of
           ReadError e \<Rightarrow> (Some e, w1)
         | NotFound \<Rightarrow>
             writeCatalog backend
               (catalogAddBox
                  \<lparr>Catalog_Name = BoxArtifact_Name artifact,
                   Catalog_Description = BoxArtifact_Description artifact,
                   Catalog_Versions = []\<rparr> artifact url) w1
         | Found c \<Rightarrow> writeCatalog backend (catalogAddBox c artifact url) w1)"

text \<open>
  Modelled from the spec: \<open>AddBox\<close> of the manager, as the tests of the program call it:
  the catalog is updated and written, "then" the local artifact file is copied "into
  backend storage". "The catalog document is written before the file copy."
\<close>

definition AddBox ::
    "Backend BackendManager \<Rightarrow> string \<Rightarrow> string \<Rightarrow> string \<Rightarrow> string \<Rightarrow> string \<Rightarrow> string \<Rightarrow> string
      \<Rightarrow> World \<Rightarrow> error option \<times> World" where
  "AddBox manager localPath name description ver provider checksumType checksum w =
     (let artifact =
            \<lparr>BoxArtifact_Path = localPath, BoxArtifact_Name = name,
             BoxArtifact_Description = description, BoxArtifact_Version = ver,
             BoxArtifact_Provider = provider, BoxArtifact_CatalogUri = CatalogUri manager,
             BoxArtifact_ChecksumType = checksumType, BoxArtifact_Checksum = checksum\<rparr>;
          (err, w1) = AddBoxMetadataToCatalog manager artifact w
      in case err of
           Some e \<Rightarrow> (Some e, w1)
         | None \<Rightarrow> CopyBoxFile (Backend manager) artifact w1)"

text \<open>
  Modelled from the spec: \<open>queryCatalog\<close> of the manager "delegates to the query engine
  against the freshly read catalog".
\<close>

definition managerQueryCatalog ::
    "Backend BackendManager \<Rightarrow> string \<Rightarrow> string \<Rightarrow> World \<Rightarrow> (error + Catalog) \<times> World" where
  "managerQueryCatalog manager versionQuery providerQuery w =
     (let (r, w1) = GetCatalog manager w
      in (case r of
            Inl e \<Rightarrow> Inl e
          | Inr c \<Rightarrow> QueryCatalog c versionQuery providerQuery,
          w1))"

text \<open>
  Modelled from the spec: the reduction of a catalog by a set of matches. It "removes
  each matching Provider from its Version (removing the Version entirely if it becomes
  empty, ..., preserving order of remaining entries)". A provider is identified by
  its version string and its name.
\<close>

definition isMatched :: "Catalog \<Rightarrow> string \<Rightarrow> string \<Rightarrow> bool" where
  "isMatched matches ver name =
     list_ex (\<lambda>v. Version_Version v = ver
                 \<and> list_ex (\<lambda>p. Provider_Name p = name) (Version_Providers v))
       (Catalog_Versions matches)"

definition removeMatches :: "Catalog \<Rightarrow> Catalog \<Rightarrow> Catalog" where
  "removeMatches catalog matches =
     catalog\<lparr>Catalog_Versions :=
       filter (\<lambda>v. Version_Providers v \<noteq> [])
         (map (\<lambda>v. v\<lparr>Version_Providers :=
                     filter (\<lambda>p. \<not> isMatched matches (Version_Version v) (Provider_Name p))
                       (Version_Providers v)\<rparr>)
            (Catalog_Versions catalog))\<rparr>"

text \<open>
  Modelled from the spec: the file deletions of a delete. Every matching artifact file
  is deleted; "a file-delete failure is reported" (the first one) and the others are
  still attempted.
\<close>

fun deleteArtifacts ::
    "Backend \<Rightarrow> (string \<times> string \<times> string) list \<Rightarrow> World \<Rightarrow> error option \<times> World" where
  "deleteArtifacts backend [] w = (None, w)"
| "deleteArtifacts backend ((name, ver, provider) # rest) w =
     (let (err, w1) = deleteArtifact backend name ver provider w;
          (err', w2) = deleteArtifacts backend rest w1
      in (case err of Some e \<Rightarrow> Some e | None \<Rightarrow> err', w2))"

text \<open>
  Modelled from the spec: \<open>deleteBoxes\<close> of the manager. It "reads the catalog,
  computes the matching set via the query engine, removes each matching Provider from
  its Version, deletes each matching artifact file from the backend, and writes the
  reduced catalog back. Deletion of the catalog document happens regardless of
  individual file-delete outcomes; a file-delete failure is reported but does not roll
  back the catalog write."
\<close>

definition deleteBoxes ::
    "Backend BackendManager \<Rightarrow> string \<Rightarrow> string \<Rightarrow> World \<Rightarrow> error option \<times> World" where
  "deleteBoxes manager versionQuery providerQuery w =
     (let (r, w1) = GetCatalog manager w
      in case r of
           Inl e \<Rightarrow> (Some e, w1)
         | Inr c \<Rightarrow>
             (case QueryCatalog c versionQuery providerQuery of
                Inl e \<Rightarrow> (Some e, w1)
              | Inr matches \<Rightarrow>
                  (let targets = concat (map (\<lambda>v. map (\<lambda>p. (Catalog_Name c, Version_Version v,
                                                            Provider_Name p))
                                                  (Version_Providers v))
                                          (Catalog_Versions matches));
                       (derr, w2) = deleteArtifacts (Backend manager) targets w1;
                       (werr, w3) = writeCatalog (Backend manager) (removeMatches c matches) w2
                   in (case werr of Some e \<Rightarrow> Some e | None \<Rightarrow> derr, w3))))"

section \<open>The actions of the command line program\<close>

text \<open>
  \<open>addAction\<close>. \<open>caryatid.DeriveArtifactInfoFromBoxFile\<close> reads the box file at the
  local path; it is the parameter \<open>Derive\<close>, answering the digest type, the digest and
  the provider, or an error, on which \<open>addAction\<close> panics. The manager comes from
  \<open>getManager\<close>; then the catalog is updated through the manager, read back for the
  log, and the box file is copied by the manager's backend. Each error ends the
  action and is returned; the world is passed from call to call.
\<close>

definition addAction ::
    "(string \<Rightarrow> error + (string \<times> string \<times> string)) \<Rightarrow> (string \<Rightarrow> string \<times> error option)
      \<Rightarrow> (string \<Rightarrow> error + Backend)
      \<Rightarrow> string \<Rightarrow> string \<Rightarrow> string \<Rightarrow> string \<Rightarrow> string \<Rightarrow> World \<Rightarrow> error option \<times> World" where
  "addAction Derive Abs NewBackend boxPath boxName boxDescription boxVersion catalogRootUri w =
     (case Derive boxPath of
        Inl err \<Rightarrow>
          (Some (Panic (''Could not determine artifact info: ''
                         @ (case err of Error msg \<Rightarrow> msg | Panic msg \<Rightarrow> msg))), w)
      | Inr (digestType, digest, provider) \<Rightarrow>
          (let boxArtifact =
                 \<lparr>BoxArtifact_Path = boxPath, BoxArtifact_Name = boxName,
                  BoxArtifact_Description = boxDescription, BoxArtifact_Version = boxVersion,
                  BoxArtifact_Provider = provider, BoxArtifact_CatalogUri = catalogRootUri,
                  BoxArtifact_ChecksumType = digestType, BoxArtifact_Checksum = digest\<rparr>
           in case getManager Abs NewBackend catalogRootUri boxName of
                Inl err \<Rightarrow> (Some err, w)
              | Inr manager \<Rightarrow>
                  (let (err, w1) = AddBoxMetadataToCatalog manager boxArtifact w
                   in case err of
                        Some e \<Rightarrow> (Some e, w1)
                      | None \<Rightarrow>
                          (let (r, w2) = GetCatalog manager w1
                           in case r of
                                Inl e \<Rightarrow> (Some e, w2)
                              | Inr catalog \<Rightarrow>
                                  CopyBoxFile (Backend manager) boxArtifact w2))))"

text \<open>\<open>deleteAction\<close> takes no arguments and panics.\<close>

definition deleteAction :: "World \<Rightarrow> error option \<times> World" where
  "deleteAction w = (Some (Panic ''DELETE ACTION NOT IMPLEMENTED''), w)"

section \<open>Literal patterns\<close>

text \<open>
  A byte that stands for itself in a pattern, and the items of a pattern made of such
  bytes only.
\<close>

definition isLiteralByte :: "char \<Rightarrow> bool" where
  "isLiteralByte c = (isAscii c \<and> c \<notin> set ''*+?.^$[(){|'' \<and> c \<noteq> CHR 0x5C)"

definition literalItems :: "string \<Rightarrow> rx_item list" where
  "literalItems pattern = map (\<lambda>c. (AChar c, QOne)) pattern"

section \<open>Example catalogs\<close>

text \<open>A provider entry as the tests of the program write it.\<close>

definition exampleProvider :: "string \<Rightarrow> Provider" where
  "exampleProvider name =
     \<lparr>Provider_Name = name, Provider_Url = ''FAKEURI'',
      Provider_ChecksumType = ''TestDigestType'', Provider_Checksum = ''0xB00B1E5''\<rparr>"

text \<open>A catalog whose versions are not in ascending order.\<close>

definition unsortedCatalog :: Catalog where
  "unsortedCatalog =
     \<lparr>Catalog_Name = ''ExampleBox'', Catalog_Description = ''an example box'',
      Catalog_Versions =
        [\<lparr>Version_Version = ''1.4.5'',
          Version_Providers = [exampleProvider ''StrongSapling'', exampleProvider ''FeebleFungus'']\<rparr>,
         \<lparr>Version_Version = ''0.3.5'',
          Version_Providers = [exampleProvider ''FeebleFungus'']\<rparr>,
         \<lparr>Version_Version = ''1.2.3'',
          Version_Providers = [exampleProvider ''FeebleFungus'', exampleProvider ''StrongSapling'']\<rparr>]\<rparr>"

section \<open>The scenarios of the tests\<close>

text \<open>A world with no catalog document, no artifact file and no fault.\<close>

definition emptyWorld :: World where
  "emptyWorld = \<lparr>documents = (\<lambda>uri. None), boxFiles = {}, faults = {}, calls = []\<rparr>"

text \<open>
  The loop of the tests that adds one box file under several versions; the first
  error ends it.
\<close>

fun addVersions ::
    "Backend BackendManager \<Rightarrow> string \<Rightarrow> string \<Rightarrow> string \<Rightarrow> string list \<Rightarrow> string \<Rightarrow> string \<Rightarrow> string
      \<Rightarrow> World \<Rightarrow> error option \<times> World" where
  "addVersions manager boxPath boxName boxDesc [] provider digestType digest w = (None, w)"
| "addVersions manager boxPath boxName boxDesc (ver # vers) provider digestType digest w =
     (case AddBox manager boxPath boxName boxDesc ver provider digestType digest w of
        (Some e, w1) \<Rightarrow> (Some e, w1)
      | (None, w1) \<Rightarrow> addVersions manager boxPath boxName boxDesc vers provider digestType digest w1)"

text \<open>The manager that \<open>getManager\<close> builds for a local-filesystem URI.\<close>

definition localManager :: "string \<Rightarrow> string \<Rightarrow> Backend BackendManager" where
  "localManager uri boxName = \<lparr>CatalogUri = uri, BoxName = boxName, Backend = localBackend uri\<rparr>"

text \<open>
  The catalog an add starts from: the document, or the empty catalog keyed by the name
  and the description of the artifact.
\<close>

definition startCatalog :: "World \<Rightarrow> string \<Rightarrow> string \<Rightarrow> string \<Rightarrow> Catalog" where
  "startCatalog w uri name description =
     (case documents w uri of
        None \<Rightarrow> \<lparr>Catalog_Name = name, Catalog_Description = description, Catalog_Versions = []\<rparr>
      | Some c \<Rightarrow> c)"

text \<open>
  \<open>TestQueryAction\<close>: the manager of the test catalog, and the world after the seven
  versions of provider \<open>StrongSapling\<close> and the seven of \<open>FeebleFungus\<close> were added to
  an empty catalog.
\<close>

definition queryTestUri :: string where
  "queryTestUri = ''file:///caryatid/integration_tests/TestQueryActionBox.json''"

definition queryTestManager :: "Backend BackendManager" where
  "queryTestManager = localManager queryTestUri ''TestQueryActionBox''"

definition queryTestWorld :: World where
  "queryTestWorld =
     snd (addVersions queryTestManager ''/caryatid/integration_tests/incoming-TestQueryActionBox-2.box''
            ''TestQueryActionBox'' ''TestQueryActionBox is a test box''
            [''0.3.4'', ''0.3.5-BETA'', ''1.0.1'', ''2.0.0'', ''2.10.0'', ''2.11.1'', ''1.2.3'']
            ''FeebleFungus'' ''TestQueryActionDigestType'' ''0xB00B1E5''
       (snd (addVersions queryTestManager ''/caryatid/integration_tests/incoming-TestQueryActionBox-1.box''
               ''TestQueryActionBox'' ''TestQueryActionBox is a test box''
               [''0.3.5'', ''0.3.5-BETA'', ''1.0.0'', ''1.0.0-PRE'', ''1.4.5'', ''1.2.3'', ''1.2.4'']
               ''StrongSapling'' ''TestQueryActionDigestType'' ''0xB00B1E5''
          emptyWorld)))"

text \<open>
  The catalog of \<open>TestQueryAction\<close>, as its first test case expects it; the locations
  are those of the local backend.
\<close>

definition queryTestProvider :: "string \<Rightarrow> string \<Rightarrow> Provider" where
  "queryTestProvider ver name =
     \<lparr>Provider_Name = name,
      Provider_Url = ''file:///caryatid/integration_tests/TestQueryActionBox/TestQueryActionBox_''
                       @ ver @ ''_'' @ name @ ''.box'',
      Provider_ChecksumType = ''TestQueryActionDigestType'', Provider_Checksum = ''0xB00B1E5''\<rparr>"

definition queryTestVersion :: "string \<Rightarrow> string list \<Rightarrow> Version" where
  "queryTestVersion ver names =
     \<lparr>Version_Version = ver, Version_Providers = map (queryTestProvider ver) names\<rparr>"

definition queryTestCatalog :: Catalog where
  "queryTestCatalog =
     \<lparr>Catalog_Name = ''TestQueryActionBox'',
      Catalog_Description = ''TestQueryActionBox is a test box'',
      Catalog_Versions =
        [queryTestVersion ''0.3.5'' [''StrongSapling''],
         queryTestVersion ''0.3.5-BETA'' [''StrongSapling'', ''FeebleFungus''],
         queryTestVersion ''1.0.0'' [''StrongSapling''],
         queryTestVersion ''1.0.0-PRE'' [''StrongSapling''],
         queryTestVersion ''1.4.5'' [''StrongSapling''],
         queryTestVersion ''1.2.3'' [''StrongSapling'', ''FeebleFungus''],
         queryTestVersion ''1.2.4'' [''StrongSapling''],
         queryTestVersion ''0.3.4'' [''FeebleFungus''],
         queryTestVersion ''1.0.1'' [''FeebleFungus''],
         queryTestVersion ''2.0.0'' [''FeebleFungus''],
         queryTestVersion ''2.10.0'' [''FeebleFungus''],
         queryTestVersion ''2.11.1'' [''FeebleFungus'']]\<rparr>"

text \<open>The versions of a catalog that hold a provider of the given name.\<close>

definition versionsWith :: "string \<Rightarrow> Catalog \<Rightarrow> string list" where
  "versionsWith provider catalog =
     map Version_Version
       (filter (\<lambda>v. list_ex (\<lambda>p. Provider_Name p = provider) (Version_Providers v))
          (Catalog_Versions catalog))"

(*PROPERTIES*)
section \<open>Properties of the scheme test\<close>

lemma compile_uri_pattern:
  "regexp_Compile ''^[a-zA-Z0-9]+://'' =
     Inr [(ABegin, QOne), (schemeClass, QPlus),
          (AChar CHR '':'', QOne), (AChar CHR ''/'', QOne), (AChar CHR ''/'', QOne)]"
  by (simp add: regexp_Compile_def parseClass_def byteLe_def isAscii_def quantOf_def schemeClass_def)

lemma atomMatches_schemeClass: "atomMatches schemeClass x = isAlnum x"
  by (simp add: schemeClass_def isAlnum_def)

lemma matchHere_ABegin_False: "matchHere ((ABegin, q) # r) s False = False"
  by (cases s) simp_all

lemma matchFrom_ABegin_False: "matchFrom ((ABegin, q) # r) s False = False"
  by (induction s) (simp_all add: matchHere_ABegin_False)

lemma matchFrom_ABegin_True: "matchFrom ((ABegin, QOne) # r) s True = matchHere r s True"
  by (cases s) (simp_all add: matchFrom_ABegin_False)

lemma matchHere_sep:
  "matchHere [(AChar CHR '':'', QOne), (AChar CHR ''/'', QOne), (AChar CHR ''/'', QOne)] s b
     = (\<exists>rest. s = ''://'' @ rest)"
proof (cases s)
  case Nil then show ?thesis by simp
next
  case (Cons x1 s1)
  show ?thesis
  proof (cases s1)
    case Nil with Cons show ?thesis by simp
  next
    case (Cons x2 s2)
    note c2 = this
    show ?thesis
    proof (cases s2)
      case Nil with c2 \<open>s = x1 # s1\<close> show ?thesis by simp
    next
      case (Cons x3 s3)
      with c2 \<open>s = x1 # s1\<close> show ?thesis by auto
    qed
  qed
qed

lemma schemeClass_not_anchor: "schemeClass \<noteq> ABegin" "schemeClass \<noteq> AEnd"
  by (simp_all add: schemeClass_def)

lemma matchHere_star_sep:
  "matchHere [(schemeClass, QStar), (AChar CHR '':'', QOne), (AChar CHR ''/'', QOne), (AChar CHR ''/'', QOne)] s b
     = (\<exists>pre rest. (\<forall>c\<in>set pre. isAlnum c) \<and> s = pre @ ''://'' @ rest)"
proof (induction s arbitrary: b)
  case Nil
  then show ?case by (simp add: schemeClass_not_anchor)
next
  case (Cons x xs)
  let ?sep = "[(AChar CHR '':'', QOne), (AChar CHR ''/'', QOne), (AChar CHR ''/'', QOne)]"
  have "matchHere ((schemeClass, QStar) # ?sep) (x # xs) b
          = (matchHere ?sep (x # xs) b \<or> (isAlnum x \<and> matchHere ((schemeClass, QStar) # ?sep) xs False))"
    by (simp add: schemeClass_not_anchor atomMatches_schemeClass del: atomMatches.simps)
  also have "\<dots> = ((\<exists>rest. x # xs = ''://'' @ rest)
                   \<or> (isAlnum x \<and> (\<exists>pre rest. (\<forall>c\<in>set pre. isAlnum c) \<and> xs = pre @ ''://'' @ rest)))"
    by (simp only: matchHere_sep Cons.IH)
  also have "\<dots> = (\<exists>pre rest. (\<forall>c\<in>set pre. isAlnum c) \<and> x # xs = pre @ ''://'' @ rest)"
  proof
    assume "(\<exists>rest. x # xs = ''://'' @ rest)
              \<or> (isAlnum x \<and> (\<exists>pre rest. (\<forall>c\<in>set pre. isAlnum c) \<and> xs = pre @ ''://'' @ rest))"
    then show "\<exists>pre rest. (\<forall>c\<in>set pre. isAlnum c) \<and> x # xs = pre @ ''://'' @ rest"
    proof
      assume "\<exists>rest. x # xs = ''://'' @ rest"
      then obtain rest where "x # xs = [] @ ''://'' @ rest" by auto
      then show ?thesis by (intro exI[of _ "[]"] exI[of _ rest]) simp
    next
      assume "isAlnum x \<and> (\<exists>pre rest. (\<forall>c\<in>set pre. isAlnum c) \<and> xs = pre @ ''://'' @ rest)"
      then obtain pre rest where "isAlnum x" "\<forall>c\<in>set pre. isAlnum c" "xs = pre @ ''://'' @ rest"
        by blast
      then show ?thesis by (intro exI[of _ "x # pre"] exI[of _ rest]) simp
    qed
  next
    assume "\<exists>pre rest. (\<forall>c\<in>set pre. isAlnum c) \<and> x # xs = pre @ ''://'' @ rest"
    then obtain pre rest where p: "\<forall>c\<in>set pre. isAlnum c" "x # xs = pre @ ''://'' @ rest" by blast
    show "(\<exists>rest. x # xs = ''://'' @ rest)
              \<or> (isAlnum x \<and> (\<exists>pre rest. (\<forall>c\<in>set pre. isAlnum c) \<and> xs = pre @ ''://'' @ rest))"
    proof (cases pre)
      case Nil
      with p show ?thesis by auto
    next
      case (Cons y ys)
      with p have "isAlnum x" "\<forall>c\<in>set ys. isAlnum c" "xs = ys @ ''://'' @ rest" by auto
      then show ?thesis by blast
    qed
  qed
  finally show ?case .
qed

lemma testValidUri_iff:
  "testValidUri s = (\<exists>scheme rest. scheme \<noteq> [] \<and> (\<forall>c\<in>set scheme. isAlnum c) \<and> s = scheme @ ''://'' @ rest)"
proof -
  let ?sep = "[(AChar CHR '':'', QOne), (AChar CHR ''/'', QOne), (AChar CHR ''/'', QOne)]"
  have "testValidUri s = matchHere ((schemeClass, QPlus) # ?sep) s True"
    by (simp add: testValidUri_def regexp_MatchString_def compile_uri_pattern matchFrom_ABegin_True
          del: matchHere.simps)
  also have "\<dots> = (\<exists>scheme rest. scheme \<noteq> [] \<and> (\<forall>c\<in>set scheme. isAlnum c) \<and> s = scheme @ ''://'' @ rest)"
  proof (cases s)
    case Nil
    then show ?thesis by (simp add: schemeClass_not_anchor)
  next
    case (Cons x xs)
    have "matchHere ((schemeClass, QPlus) # ?sep) (x # xs) True
            = (isAlnum x \<and> matchHere ((schemeClass, QStar) # ?sep) xs False)"
      by (simp add: schemeClass_not_anchor atomMatches_schemeClass del: atomMatches.simps)
    also have "\<dots> = (isAlnum x \<and> (\<exists>pre rest. (\<forall>c\<in>set pre. isAlnum c) \<and> xs = pre @ ''://'' @ rest))"
      by (simp only: matchHere_star_sep)
    also have "\<dots> = (\<exists>scheme rest. scheme \<noteq> [] \<and> (\<forall>c\<in>set scheme. isAlnum c) \<and> x # xs = scheme @ ''://'' @ rest)"
    proof
      assume "isAlnum x \<and> (\<exists>pre rest. (\<forall>c\<in>set pre. isAlnum c) \<and> xs = pre @ ''://'' @ rest)"
      then obtain pre rest where "isAlnum x" "\<forall>c\<in>set pre. isAlnum c" "xs = pre @ ''://'' @ rest"
        by blast
      then show "\<exists>scheme rest. scheme \<noteq> [] \<and> (\<forall>c\<in>set scheme. isAlnum c) \<and> x # xs = scheme @ ''://'' @ rest"
        by (intro exI[of _ "x # pre"] exI[of _ rest]) simp
    next
      assume "\<exists>scheme rest. scheme \<noteq> [] \<and> (\<forall>c\<in>set scheme. isAlnum c) \<and> x # xs = scheme @ ''://'' @ rest"
      then obtain scheme rest where p: "scheme \<noteq> []" "\<forall>c\<in>set scheme. isAlnum c"
          "x # xs = scheme @ ''://'' @ rest" by blast
      then obtain y ys where "scheme = y # ys" by (cases scheme) auto
      with p have "isAlnum x" "\<forall>c\<in>set ys. isAlnum c" "xs = ys @ ''://'' @ rest" by auto
      then show "isAlnum x \<and> (\<exists>pre rest. (\<forall>c\<in>set pre. isAlnum c) \<and> xs = pre @ ''://'' @ rest)"
        by blast
    qed
    finally show ?thesis using Cons by simp
  qed
  finally show ?thesis .
qed

text \<open>
  Claim C10. \<open>getManager\<close> uses the catalog location verbatim as the catalog URI exactly
  when it matches \<open>^[a-zA-Z0-9]+://\<close>, that is when it starts with one or more letters
  or digits followed by \<open>://\<close>; every other string is turned into \<open>file://\<close> followed
  by its absolute path, and the backend is constructed from the URI chosen this way.
\<close>

theorem getManager_uri_choice:
  "(testValidUri s
      = (\<exists>scheme rest. scheme \<noteq> [] \<and> (\<forall>c\<in>set scheme. isAlnum c) \<and> s = scheme @ ''://'' @ rest))
   \<and> (testValidUri s \<longrightarrow>
        getManager Abs NewBackend s boxName =
          (case NewBackend s of
             Inl e \<Rightarrow> Inl e
           | Inr backend \<Rightarrow> Inr \<lparr>CatalogUri = s, BoxName = boxName, Backend = backend\<rparr>))
   \<and> (\<not> testValidUri s \<longrightarrow>
        getManager Abs NewBackend s boxName =
          (case snd (Abs s) of
             Some e \<Rightarrow> Inl e
           | None \<Rightarrow>
               (case NewBackend (''file://'' @ fst (Abs s)) of
                  Inl e \<Rightarrow> Inl e
                | Inr backend \<Rightarrow>
                    Inr \<lparr>CatalogUri = ''file://'' @ fst (Abs s), BoxName = boxName,
                         Backend = backend\<rparr>)))"
proof (intro conjI impI)
  show "testValidUri s
      = (\<exists>scheme rest. scheme \<noteq> [] \<and> (\<forall>c\<in>set scheme. isAlnum c) \<and> s = scheme @ ''://'' @ rest)"
    by (rule testValidUri_iff)
next
  assume "testValidUri s"
  then show "getManager Abs NewBackend s boxName =
          (case NewBackend s of
             Inl e \<Rightarrow> Inl e
           | Inr backend \<Rightarrow> Inr \<lparr>CatalogUri = s, BoxName = boxName, Backend = backend\<rparr>)"
    by (simp add: getManager_def)
next
  assume "\<not> testValidUri s"
  then show "getManager Abs NewBackend s boxName =
          (case snd (Abs s) of
             Some e \<Rightarrow> Inl e
           | None \<Rightarrow>
               (case NewBackend (''file://'' @ fst (Abs s)) of
                  Inl e \<Rightarrow> Inl e
                | Inr backend \<Rightarrow>
                    Inr \<lparr>CatalogUri = ''file://'' @ fst (Abs s), BoxName = boxName,
                         Backend = backend\<rparr>))"
    by (cases "Abs s")
       (auto simp: getManager_def convertLocalPathToUri_def split: option.splits sum.splits)
qed

theorem getManager_uri_choice_witness:
  "testValidUri ''file:///srv/boxes/catalog.json''
   \<and> getManager (\<lambda>p. (''/home/user/'' @ p, None)) (\<lambda>u. Inr (length u))
        ''file:///srv/boxes/catalog.json'' ''testbox''
       = Inr \<lparr>CatalogUri = ''file:///srv/boxes/catalog.json'', BoxName = ''testbox'', Backend = 30\<rparr>
   \<and> \<not> testValidUri ''boxes/catalog.json''
   \<and> getManager (\<lambda>p. (''/home/user/'' @ p, None)) (\<lambda>u. Inr (length u))
        ''boxes/catalog.json'' ''testbox''
       = Inr \<lparr>CatalogUri = ''file:///home/user/boxes/catalog.json'', BoxName = ''testbox'',
              Backend = 36\<rparr>"
proof -
  have valid: "testValidUri ''file:///srv/boxes/catalog.json''"
    by (simp add: testValidUri_def regexp_MatchString_def compile_uri_pattern schemeClass_def
          inRange_def byteLe_def)
  have invalid: "\<not> testValidUri ''boxes/catalog.json''"
    by (simp add: testValidUri_def regexp_MatchString_def compile_uri_pattern schemeClass_def
          inRange_def byteLe_def)
  from valid invalid
    getManager_uri_choice [of "''file:///srv/boxes/catalog.json''"
        "\<lambda>p. (''/home/user/'' @ p, None)" "\<lambda>u. Inr (length u)" "''testbox''"]
    getManager_uri_choice [of "''boxes/catalog.json''"
        "\<lambda>p. (''/home/user/'' @ p, None)" "\<lambda>u. Inr (length u)" "''testbox''"]
  show ?thesis by simp
qed

section \<open>Properties of the version comparator\<close>

lemma compareCore_refl: "compareCore c c = EQ"
  by (induction c) simp_all

lemma compareCore_lexord:
  "(compareCore xs ys = LT) = ((xs, ys) \<in> lexord {(a, b). a < b})"
  by (induction xs ys rule: compareCore.induct) auto

lemma parseVersion_no_suffix:
  assumes "parseVersion X = Inr (core, None)"
  shows "CHR ''-'' \<notin> set X"
proof -
  from assms have "dropWhile (\<lambda>c. c \<noteq> CHR ''-'') X = []"
    by (auto simp: parseVersion_def Let_def split: option.splits list.splits)
  then show ?thesis by auto
qed

lemma parseVersion_append_suffix:
  assumes "parseVersion X = Inr (core, None)"
  shows "parseVersion (X @ ''-'' @ S) = Inr (core, Some S)"
proof -
  have nd: "CHR ''-'' \<notin> set X" using assms by (rule parseVersion_no_suffix)
  then have tw: "takeWhile (\<lambda>c. c \<noteq> CHR ''-'') (X @ ''-'' @ S) = X"
    by (auto simp: takeWhile_tail)
  from nd have dw: "dropWhile (\<lambda>c. c \<noteq> CHR ''-'') (X @ ''-'' @ S) = ''-'' @ S"
    by (auto simp: dropWhile_append3)
  from nd have twx: "takeWhile (\<lambda>c. c \<noteq> CHR ''-'') X = X"
    by auto
  from assms twx have "allSome (map parseComponent (splitOn (CHR ''.'') X)) = Some core"
    by (auto simp: parseVersion_def Let_def split: option.splits)
  with tw dw show ?thesis
    by (simp add: parseVersion_def Let_def)
qed

lemmas version_eval = versionCompare_def parseVersion_def parseComponent_def isDigit_def
  digitVal_def inRange_def byteLe_def

text \<open>
  Claim C4. A version with a pre-release suffix orders strictly before the same numeric
  core without one: for every valid version \<open>X\<close> without suffix and every suffix \<open>S\<close>,
  \<open>X-S\<close> is less than \<open>X\<close>. Numeric cores are compared component by component as
  numbers (the order of \<open>compareCore\<close> is the lexicographic order on lists of
  numbers), not as strings: \<open>1.0.0-PRE < 1.0.0 < 1.2.3 < 1.2.4\<close>,
  \<open>0.3.5-BETA < 0.3.5\<close>, and \<open>1.10.0 > 1.2.0\<close> although the string \<open>1.10.0\<close> is
  lexically before \<open>1.2.0\<close>.
\<close>

theorem version_order:
  "(parseVersion X = Inr (core, None) \<longrightarrow> versionCompare (X @ ''-'' @ S) X = Inr LT)
   \<and> (compareCore xs ys = LT) = ((xs, ys) \<in> lexord {(a, b). a < b})
   \<and> versionCompare ''1.0.0-PRE'' ''1.0.0'' = Inr LT
   \<and> versionCompare ''1.0.0'' ''1.2.3'' = Inr LT
   \<and> versionCompare ''1.2.3'' ''1.2.4'' = Inr LT
   \<and> versionCompare ''0.3.5-BETA'' ''0.3.5'' = Inr LT
   \<and> versionCompare ''1.10.0'' ''1.2.0'' = Inr GT
   \<and> compareString ''1.10.0'' ''1.2.0'' = LT"
proof (intro conjI impI)
  assume p: "parseVersion X = Inr (core, None)"
  then have "parseVersion (X @ ''-'' @ S) = Inr (core, Some S)"
    by (rule parseVersion_append_suffix)
  with p show "versionCompare (X @ ''-'' @ S) X = Inr LT"
    by (simp add: versionCompare_def compareCore_refl)
next
  show "(compareCore xs ys = LT) = ((xs, ys) \<in> lexord {(a, b). a < b})"
    by (rule compareCore_lexord)
qed (simp_all add: version_eval)

theorem version_order_witness:
  "parseVersion ''2.10.0'' = Inr ([2, 10, 0], None)
   \<and> versionCompare ''2.10.0-rc1'' ''2.10.0'' = Inr LT"
proof -
  have p: "parseVersion ''2.10.0'' = Inr ([2, 10, 0], None)"
    by (simp add: version_eval)
  from p version_order [of "''2.10.0''" "[2, 10, 0]" "''rc1''"]
  show ?thesis by simp
qed

section \<open>Properties of the query engine\<close>

lemma filterProviders_filter:
  "filterProviders match pattern ps = Inr r \<Longrightarrow>
     r = filter (\<lambda>p. match pattern (Provider_Name p) = Inr True) ps"
  by (induction ps arbitrary: r) (auto split: sum.splits if_splits)

lemma filterVersions_filter:
  "filterVersions match query pattern vs = Inr r \<Longrightarrow>
     r = map (\<lambda>v. v\<lparr>Version_Providers :=
                     filter (\<lambda>p. match pattern (Provider_Name p) = Inr True) (Version_Providers v)\<rparr>)
           (filter (\<lambda>v. versionSatisfies query (Version_Version v) = Inr True
                        \<and> filter (\<lambda>p. match pattern (Provider_Name p) = Inr True)
                              (Version_Providers v) \<noteq> [])
              vs)"
proof (induction vs arbitrary: r)
  case Nil
  then show ?case by simp
next
  case (Cons v vs)
  from Cons.prems obtain ok ps rest where
    ok: "versionSatisfies query (Version_Version v) = Inr ok"
    and ps: "(if ok then filterProviders match pattern (Version_Providers v) else Inr []) = Inr ps"
    and rest: "filterVersions match query pattern vs = Inr rest"
    and r: "r = (if ps = [] then rest else v\<lparr>Version_Providers := ps\<rparr> # rest)"
    by (auto split: sum.splits)
  note IH = Cons.IH [OF rest]
  show ?case
  proof (cases ok)
    case True
    with ps have "ps = filter (\<lambda>p. match pattern (Provider_Name p) = Inr True) (Version_Providers v)"
      by (simp add: filterProviders_filter)
    with True ok r IH show ?thesis by simp
  next
    case False
    with ps have "ps = []" by simp
    with False ok r IH show ?thesis by simp
  qed
qed

text \<open>
  Claim C7. Whatever the matcher of provider patterns, a query that returns a catalog
  returns the versions of the input that satisfy the version query and keep a
  provider, in the order of the input, each with its matching providers in their
  order: nothing is reordered, sorted or removed as a duplicate. The result keeps the
  name and the description of the input.
\<close>

theorem query_preserves_order:
  assumes "queryCatalogWith match catalog versionQuery providerQuery = Inr result"
  shows "Catalog_Name result = Catalog_Name catalog
    \<and> Catalog_Description result = Catalog_Description catalog
    \<and> (\<exists>query. parseVersionQuery versionQuery = Inr query
          \<and> Catalog_Versions result =
              map (\<lambda>v. v\<lparr>Version_Providers :=
                          filter (\<lambda>p. match providerQuery (Provider_Name p) = Inr True)
                            (Version_Providers v)\<rparr>)
                (filter (\<lambda>v. versionSatisfies query (Version_Version v) = Inr True
                             \<and> filter (\<lambda>p. match providerQuery (Provider_Name p) = Inr True)
                                   (Version_Providers v) \<noteq> [])
                   (Catalog_Versions catalog)))
    \<and> (\<exists>kept. subseq kept (Catalog_Versions catalog)
          \<and> list_all2 (\<lambda>v' v. Version_Version v' = Version_Version v
                               \<and> subseq (Version_Providers v') (Version_Providers v))
                (Catalog_Versions result) kept)"
proof -
  from assms obtain query vs where
    q: "parseVersionQuery versionQuery = Inr query"
    and vs: "filterVersions match query providerQuery (Catalog_Versions catalog) = Inr vs"
    and r: "result = catalog\<lparr>Catalog_Versions := vs\<rparr>"
    by (auto simp: queryCatalogWith_def split: sum.splits)
  let ?P = "\<lambda>p. match providerQuery (Provider_Name p) = Inr True"
  let ?K = "\<lambda>v. versionSatisfies query (Version_Version v) = Inr True
                \<and> filter ?P (Version_Providers v) \<noteq> []"
  let ?kept = "filter ?K (Catalog_Versions catalog)"
  have eq: "vs = map (\<lambda>v. v\<lparr>Version_Providers := filter ?P (Version_Providers v)\<rparr>) ?kept"
    using vs by (rule filterVersions_filter)
  have sub: "subseq ?kept (Catalog_Versions catalog)" by simp
  have all2: "list_all2 (\<lambda>v' v. Version_Version v' = Version_Version v
                               \<and> subseq (Version_Providers v') (Version_Providers v)) vs ?kept"
    unfolding eq by (simp add: list_all2_map1 list_all2_same)
  have vr: "Catalog_Versions result = vs" using r by simp
  have "\<exists>kept. subseq kept (Catalog_Versions catalog)
          \<and> list_all2 (\<lambda>v' v. Version_Version v' = Version_Version v
                               \<and> subseq (Version_Providers v') (Version_Providers v))
                (Catalog_Versions result) kept"
    unfolding vr using sub all2 by blast
  moreover have "\<exists>query. parseVersionQuery versionQuery = Inr query
          \<and> Catalog_Versions result =
              map (\<lambda>v. v\<lparr>Version_Providers := filter ?P (Version_Providers v)\<rparr>)
                (filter (\<lambda>v. versionSatisfies query (Version_Version v) = Inr True
                             \<and> filter ?P (Version_Providers v) \<noteq> [])
                   (Catalog_Versions catalog))"
    unfolding vr using q eq by blast
  moreover have "Catalog_Name result = Catalog_Name catalog"
      "Catalog_Description result = Catalog_Description catalog"
    using r by simp_all
  ultimately show ?thesis by blast
qed

theorem query_preserves_order_witness:
  "queryCatalogWith providerMatches unsortedCatalog ''>=1'' ''Sap'' =
     Inr \<lparr>Catalog_Name = ''ExampleBox'', Catalog_Description = ''an example box'',
          Catalog_Versions =
            [\<lparr>Version_Version = ''1.4.5'', Version_Providers = [exampleProvider ''StrongSapling'']\<rparr>,
             \<lparr>Version_Version = ''1.2.3'', Version_Providers = [exampleProvider ''StrongSapling'']\<rparr>]\<rparr>
   \<and> (\<exists>kept. subseq kept (Catalog_Versions unsortedCatalog)
          \<and> list_all2 (\<lambda>v' v. Version_Version v' = Version_Version v
                               \<and> subseq (Version_Providers v') (Version_Providers v))
                [\<lparr>Version_Version = ''1.4.5'', Version_Providers = [exampleProvider ''StrongSapling'']\<rparr>,
                 \<lparr>Version_Version = ''1.2.3'', Version_Providers = [exampleProvider ''StrongSapling'']\<rparr>]
                kept)"
proof -
  have run: "queryCatalogWith providerMatches unsortedCatalog ''>=1'' ''Sap'' =
     Inr \<lparr>Catalog_Name = ''ExampleBox'', Catalog_Description = ''an example box'',
          Catalog_Versions =
            [\<lparr>Version_Version = ''1.4.5'', Version_Providers = [exampleProvider ''StrongSapling'']\<rparr>,
             \<lparr>Version_Version = ''1.2.3'', Version_Providers = [exampleProvider ''StrongSapling'']\<rparr>]\<rparr>"
    by code_simp
  from query_preserves_order [OF run] run show ?thesis by simp
qed

lemma parseItems_literal:
  "list_all isLiteralByte pattern \<Longrightarrow>
     parseItems pattern acc = Inr (rev acc @ literalItems pattern)"
proof (induction pattern arbitrary: acc)
  case Nil
  then show ?case by (simp add: literalItems_def)
next
  case (Cons c cs)
  from Cons.prems have c: "isLiteralByte c" and cs: "list_all isLiteralByte cs" by simp_all
  from c have "parseItems (c # cs) acc = parseItems cs ((AChar c, QOne) # acc)"
    by (simp add: isLiteralByte_def)
  with Cons.IH [OF cs] show ?case by (simp add: literalItems_def)
qed

lemma matchHere_literal: "matchHere (literalItems pattern) s b = prefix pattern s"
proof (induction pattern arbitrary: s b)
  case Nil
  then show ?case by (simp add: literalItems_def)
next
  case (Cons c cs)
  then show ?case by (cases s) (auto simp: literalItems_def)
qed

lemma matchFrom_literal:
  "matchFrom (literalItems pattern) s b = (\<exists>pre post. s = pre @ pattern @ post)"
proof (induction s arbitrary: b)
  case Nil
  then show ?case by (simp add: matchHere_literal)
next
  case (Cons x xs)
  have "matchFrom (literalItems pattern) (x # xs) b
          = (prefix pattern (x # xs) \<or> (\<exists>pre post. xs = pre @ pattern @ post))"
    by (simp add: matchHere_literal Cons.IH)
  also have "\<dots> = (\<exists>pre post. x # xs = pre @ pattern @ post)"
  proof
    assume "prefix pattern (x # xs) \<or> (\<exists>pre post. xs = pre @ pattern @ post)"
    then show "\<exists>pre post. x # xs = pre @ pattern @ post"
    proof
      assume "prefix pattern (x # xs)"
      then obtain post where "x # xs = [] @ pattern @ post" by (auto simp: prefix_def)
      then show ?thesis by blast
    next
      assume "\<exists>pre post. xs = pre @ pattern @ post"
      then obtain pre post where "x # xs = (x # pre) @ pattern @ post" by auto
      then show ?thesis by blast
    qed
  next
    assume "\<exists>pre post. x # xs = pre @ pattern @ post"
    then obtain pre post where p: "x # xs = pre @ pattern @ post" by blast
    show "prefix pattern (x # xs) \<or> (\<exists>pre post. xs = pre @ pattern @ post)"
    proof (cases pre)
      case Nil
      with p show ?thesis by (auto simp: prefix_def)
    next
      case (Cons y ys)
      with p have "xs = ys @ pattern @ post" by simp
      then show ?thesis by blast
    qed
  qed
  finally show ?case .
qed

lemma regexp_MatchString_literal:
  "list_all isLiteralByte pattern \<Longrightarrow>
     regexp_MatchString pattern s = Inr (\<exists>pre post. s = pre @ pattern @ post)"
  by (simp add: regexp_MatchString_def regexp_Compile_def parseItems_literal matchFrom_literal)

lemmas rx_eval = regexp_MatchString_def regexp_Compile_def parseClass_def byteLe_def isAscii_def
  quantOf_def inRange_def isAlnum_def

text \<open>
  Claim C8, as amended. The provider pattern is searched in the provider name as a
  regular expression, from any position (not a match of the whole name). For a
  pattern made of literal bytes only, the provider matches exactly when its name
  contains the pattern as a substring; \<open>rongSap\<close> and \<open>.*rongSap.*\<close> match
  \<open>StrongSapling\<close>; the empty pattern matches every provider.
\<close>

theorem provider_pattern_literal:
  "(list_all isLiteralByte pattern \<longrightarrow>
      providerMatches pattern name = Inr (\<exists>pre post. name = pre @ pattern @ post))
   \<and> providerMatches ''rongSap'' ''StrongSapling'' = Inr True
   \<and> providerMatches ''.*rongSap.*'' ''StrongSapling'' = Inr True
   \<and> providerMatches '''' name = Inr True"
proof (intro conjI impI)
  assume "list_all isLiteralByte pattern"
  then show "providerMatches pattern name = Inr (\<exists>pre post. name = pre @ pattern @ post)"
    by (simp add: providerMatches_def regexp_MatchString_literal)
next
  have "\<exists>pre post. name = pre @ [] @ post" by (rule exI [of _ "[]"]) simp
  then show "providerMatches '''' name = Inr True"
    by (simp add: providerMatches_def regexp_MatchString_literal [of "[]"])
qed (simp_all add: providerMatches_def rx_eval)

theorem provider_pattern_literal_witness:
  "list_all isLiteralByte ''Fungus''
   \<and> providerMatches ''Fungus'' ''FeebleFungus'' = Inr True
   \<and> providerMatches ''Fungus'' ''StrongSapling'' = Inr False"
proof -
  have lit: "list_all isLiteralByte ''Fungus''"
    by (simp add: isLiteralByte_def isAscii_def)
  have yes: "\<exists>pre post. ''FeebleFungus'' = pre @ ''Fungus'' @ post"
    by (intro exI [of _ "''Feeble''"] exI [of _ "[]"]) simp
  have no: "\<not> (\<exists>pre post. ''StrongSapling'' = pre @ ''Fungus'' @ post)"
    using regexp_MatchString_literal [OF lit, of "''StrongSapling''"]
    by (simp add: rx_eval)
  from lit yes no
    provider_pattern_literal [of "''Fungus''" "''FeebleFungus''"]
    provider_pattern_literal [of "''Fungus''" "''StrongSapling''"]
  show ?thesis by simp
qed

text \<open>
  A provider name that contains the pattern and is not matched by it: in the pattern
  \<open>ab*c\<close> the star is an operator.
\<close>

theorem provider_pattern_substring_counterexample:
  "''ab*c'' = [] @ ''ab*c'' @ [] \<and> providerMatches ''ab*c'' ''ab*c'' = Inr False"
  by (simp add: providerMatches_def rx_eval)

end
